theory Spec2Isabelle
  imports Complex_Main
begin

section \<open>TOAD SAGE: the historical-case matching engine of SecurityCompanion.js\<close>

text \<open>
  The development embeds \<^verbatim>\<open>src/core/companion/SecurityCompanion.js\<close>: the learning
  database (\<^verbatim>\<open>previousCases\<close>, a JavaScript \<^verbatim>\<open>Map\<close>), \<^verbatim>\<open>updateLearningDatabase\<close>,
  \<^verbatim>\<open>findSimilarCases\<close>, \<^verbatim>\<open>formatCompanionResponse\<close>, \<^verbatim>\<open>showThinkingState\<close> and
  \<^verbatim>\<open>analyzeIncidentWithContext\<close>.

  The class calls \<^verbatim>\<open>extractPatterns\<close>, \<^verbatim>\<open>calculateSimilarity\<close>, \<^verbatim>\<open>updatePatternLearning\<close>,
  \<^verbatim>\<open>pruneOldData\<close>, \<^verbatim>\<open>calculateConfidence\<close> and \<^verbatim>\<open>showError\<close>, none of which is defined in
  the source files. The functions embedded from the source take them as parameters; the
  specification's own description of the extractor, the scorer and the pruning policy is
  embedded separately and marked as such.
\<close>

subsection \<open>Fingerprints and the similarity scorer\<close>

text \<open>A fingerprint is an ordered collection of feature tokens.\<close>

type_synonym fingerprint = "string list"

text \<open>
  Modelled from the spec: \<^verbatim>\<open>calculateSimilarity\<close> is called at SecurityCompanion.js:186 and
  defined nowhere in the source. The specification (section 4.2) gives it as
  Jaccard-style overlap, \<^verbatim>\<open>|intersection| / |union|\<close> over the two feature-token sets, and
  as 0 when both sets are empty.
\<close>

definition score :: "fingerprint \<Rightarrow> fingerprint \<Rightarrow> real" where
  "score a b =
     (if set a = {} \<and> set b = {} then 0
      else real (card (set a \<inter> set b)) / real (card (set a \<union> set b)))"

subsection \<open>JavaScript values, errors and incidents\<close>

text \<open>
  Exceptions are values. \<open>TypeError\<close> is what the runtime throws when a property of
  \<^verbatim>\<open>undefined\<close> or \<^verbatim>\<open>null\<close> is read; \<open>InvalidIncidentError\<close> is the extractor's error;
  \<open>ServiceError\<close> stands for a rejected promise of an external service.
\<close>

datatype error = TypeError | InvalidIncidentError | ServiceError string

text \<open>
  An incident object: a free-text description, a list of indicators that may be missing,
  and an optional severity.
\<close>

record incident_fields =
  description :: string
  indicators :: "string list option"
  severity :: "string option"

text \<open>
  What a caller may pass as the \<^verbatim>\<open>incident\<close> argument of a method: nothing, \<^verbatim>\<open>null\<close>, a
  primitive such as a string, or an incident object.
\<close>

datatype arg = Undefined | Null | Primitive string | Structured incident_fields

text \<open>
  Modelled from the spec: \<^verbatim>\<open>extractPatterns\<close> is called at SecurityCompanion.js:168 and 183
  and defined nowhere in the source. The specification (section 4.1) gives it as: a
  missing indicator list is treated as empty; every indicator is classified by its shape;
  keyword categories are taken from the description; a severity bucket is added; the
  fingerprint holds the distinct tokens in order of first occurrence; an argument that is
  missing or not a structured record raises \<open>InvalidIncidentError\<close>. The three tables
  (classification, vocabulary, severity buckets) are not given and are parameters.
\<close>

definition distinct_first :: "'a list \<Rightarrow> 'a list" where
  "distinct_first xs = fold (\<lambda>x acc. if x \<in> set acc then acc else acc @ [x]) xs []"

definition pattern_extract ::
  "(string \<Rightarrow> string) \<Rightarrow> (string \<Rightarrow> string list) \<Rightarrow> (string option \<Rightarrow> string)
     \<Rightarrow> arg \<Rightarrow> error + fingerprint" where
  "pattern_extract classify keywordCategories severityBucket inc =
     (case inc of
        Structured i \<Rightarrow>
          Inr (distinct_first
                 (map classify (case indicators i of None \<Rightarrow> [] | Some xs \<Rightarrow> xs)
                  @ keywordCategories (description i)
                  @ [severityBucket (severity i)]))
      | _ \<Rightarrow> Inl InvalidIncidentError)"

subsection \<open>The learning database\<close>

text \<open>
  The object stored by \<^verbatim>\<open>updateLearningDatabase\<close> (lines 164 to 169). The timestamp is the
  \<^verbatim>\<open>Date\<close> in milliseconds. The response is whatever the caller hands in.
\<close>

record 'r case_record =
  incident :: arg
  response :: 'r
  timestamp :: nat
  patterns :: fingerprint

text \<open>
  An element of the array returned by \<^verbatim>\<open>findSimilarCases\<close>: the spread of the stored
  object with \<^verbatim>\<open>similarityScore\<close> added (lines 188 to 191).
\<close>

record 'r similar_case = "'r case_record" +
  similarityScore :: real

definition withScore :: "'r case_record \<Rightarrow> real \<Rightarrow> 'r similar_case" where
  "withScore historicalCase similarity =
     \<lparr>incident = incident historicalCase, response = response historicalCase,
      timestamp = timestamp historicalCase, patterns = patterns historicalCase,
      similarityScore = similarity\<rparr>"

text \<open>
  The page the companion draws on: the class list of the element matching
  \<^verbatim>\<open>.toad-icon\<close> when there is one, and the children appended to \<^verbatim>\<open>document.body\<close> when
  the body exists.
\<close>

record document =
  toad_icon :: "string list option"
  body :: "string list option"

text \<open>
  The fields of a \<^verbatim>\<open>SecurityCompanion\<close> that the embedded methods read or write. A
  JavaScript \<^verbatim>\<open>Map\<close> iterates in insertion order, so \<^verbatim>\<open>previousCases\<close> is an association
  list in that order. Nothing embedded here reads \<^verbatim>\<open>learningPatterns\<close>; its content is
  left open. The console holds the errors passed to \<^verbatim>\<open>console.error\<close>.
\<close>

record ('r, 'p) companion =
  previousCases :: "(string \<times> 'r case_record) list"
  learningPatterns :: 'p
  page :: document
  console :: "error list"

text \<open>
  \<^verbatim>\<open>Map.prototype.set\<close>: an existing key keeps its place and gets the new value; a new key
  goes to the end. \<^verbatim>\<open>Map.prototype.get\<close> is the lookup.
\<close>

fun map_set :: "'k \<Rightarrow> 'v \<Rightarrow> ('k \<times> 'v) list \<Rightarrow> ('k \<times> 'v) list" where
  "map_set k v [] = [(k, v)]"
| "map_set k v ((k', v') # m) =
     (if k' = k then (k, v) # m else (k', v') # map_set k v m)"


text \<open>The template literal \<^verbatim>\<open>`case_${Date.now()}`\<close>: the decimal digits of the clock.\<close>

fun string_of_nat :: "nat \<Rightarrow> string" where
  "string_of_nat n =
     (if n < 10 then [char_of (48 + n)]
      else string_of_nat (n div 10) @ [char_of (48 + n mod 10)])"

definition case_id :: "nat \<Rightarrow> string" where
  "case_id now = ''case_'' @ string_of_nat now"

text \<open>
  \<^verbatim>\<open>updateLearningDatabase\<close> (lines 161 to 176). \<open>now\<close> is what \<^verbatim>\<open>Date.now()\<close> returns and
  \<open>date\<close> what \<^verbatim>\<open>new Date()\<close> returns a moment later. The object literal is evaluated
  before \<^verbatim>\<open>set\<close> runs, so an exception of \<^verbatim>\<open>extractPatterns\<close> leaves the store as it was.
  \<^verbatim>\<open>updatePatternLearning\<close> and \<^verbatim>\<open>pruneOldData\<close> are not in the source: they are
  parameters. Each gets the companion, may change it, and either returns or throws; an
  exception of either one comes after \<^verbatim>\<open>set\<close>, so it leaves the new case in the store and
  reaches the caller. The method has no \<^verbatim>\<open>return\<close>: when it completes, its value is
  \<^verbatim>\<open>undefined\<close>, written \<open>None\<close>.
\<close>

definition updateLearningDatabase ::
  "(arg \<Rightarrow> error + fingerprint)
     \<Rightarrow> (arg \<Rightarrow> 'r \<Rightarrow> ('r, 'p) companion \<Rightarrow> (error + unit) \<times> ('r, 'p) companion)
     \<Rightarrow> (('r, 'p) companion \<Rightarrow> (error + unit) \<times> ('r, 'p) companion)
     \<Rightarrow> nat \<Rightarrow> nat \<Rightarrow> arg \<Rightarrow> 'r \<Rightarrow> ('r, 'p) companion
     \<Rightarrow> (error + string option) \<times> ('r, 'p) companion" where
  "updateLearningDatabase extractPatterns updatePatternLearning pruneOldData
       now date inc resp this =
     (let caseId = case_id now in
      case extractPatterns inc of
        Inl e \<Rightarrow> (Inl e, this)
      | Inr pats \<Rightarrow>
          let stored = this\<lparr>previousCases :=
                 map_set caseId
                   \<lparr>incident = inc, response = resp, timestamp = date, patterns = pats\<rparr>
                   (previousCases this)\<rparr>
          in case updatePatternLearning inc resp stored of
               (Inl e, learned) \<Rightarrow> (Inl e, learned)
             | (Inr u, learned) \<Rightarrow>
                 (case pruneOldData learned of
                    (Inl e, pruned) \<Rightarrow> (Inl e, pruned)
                  | (Inr u', pruned) \<Rightarrow> (Inr None, pruned)))"


subsection \<open>Finding similar cases\<close>

text \<open>
  The loop of \<^verbatim>\<open>findSimilarCases\<close> (lines 185 to 193): every stored case in insertion
  order, the new object pushed at the end of \<^verbatim>\<open>similarCases\<close> when its similarity is
  above 0.7.
\<close>

fun collectSimilar ::
  "(fingerprint \<Rightarrow> fingerprint \<Rightarrow> real) \<Rightarrow> fingerprint \<Rightarrow> (string \<times> 'r case_record) list
     \<Rightarrow> 'r similar_case list \<Rightarrow> 'r similar_case list" where
  "collectSimilar calculateSimilarity pats [] similarCases = similarCases"
| "collectSimilar calculateSimilarity pats ((caseId, historicalCase) # rest) similarCases =
     (let similarity = calculateSimilarity pats (patterns historicalCase) in
      if similarity > 7 / 10
      then collectSimilar calculateSimilarity pats rest
             (similarCases @ [withScore historicalCase similarity])
      else collectSimilar calculateSimilarity pats rest similarCases)"

text \<open>
  \<^verbatim>\<open>Array.prototype.sort\<close> with a comparator. The language requires the sort to be stable;
  with a comparator that is a difference of keys the result is the stable sorted
  arrangement, which insertion from the right computes: an element goes in front of the
  first later element that the comparator does not put before it.
\<close>

fun insert_by :: "('a \<Rightarrow> 'a \<Rightarrow> real) \<Rightarrow> 'a \<Rightarrow> 'a list \<Rightarrow> 'a list" where
  "insert_by cmp x [] = [x]"
| "insert_by cmp x (y # ys) =
     (if cmp x y \<le> 0 then x # y # ys else y # insert_by cmp x ys)"

fun js_sort :: "('a \<Rightarrow> 'a \<Rightarrow> real) \<Rightarrow> 'a list \<Rightarrow> 'a list" where
  "js_sort cmp [] = []"
| "js_sort cmp (x # xs) = insert_by cmp x (js_sort cmp xs)"

text \<open>
  \<^verbatim>\<open>findSimilarCases\<close> (lines 181 to 196). \<^verbatim>\<open>extractPatterns\<close> and \<^verbatim>\<open>calculateSimilarity\<close>
  are parameters. The method takes the incident only and compares against the
  literal 0.7. It assigns to no field, so the companion is returned as it came.
\<close>

definition findSimilarCases ::
  "(arg \<Rightarrow> error + fingerprint) \<Rightarrow> (fingerprint \<Rightarrow> fingerprint \<Rightarrow> real)
     \<Rightarrow> arg \<Rightarrow> ('r, 'p) companion
     \<Rightarrow> (error + 'r similar_case list) \<times> ('r, 'p) companion" where
  "findSimilarCases extractPatterns calculateSimilarity inc this =
     (case extractPatterns inc of
        Inl e \<Rightarrow> (Inl e, this)
      | Inr pats \<Rightarrow>
          (Inr (js_sort (\<lambda>a b. similarityScore b - similarityScore a)
                  (collectSimilar calculateSimilarity pats (previousCases this) [])),
           this))"

subsection \<open>The companion's response\<close>

text \<open>
  What \<^verbatim>\<open>groq.generateAnalysis\<close> hands back, as far as \<^verbatim>\<open>formatCompanionResponse\<close> reads
  it. The service is outside the source, so the two arrays may be missing; \<open>None\<close> is a
  property that is \<^verbatim>\<open>undefined\<close>.
\<close>

record ai_evidence =
  e_source :: string
  e_description :: string
  e_reference :: string

record ai_recommendation =
  r_priority :: string
  r_description :: string
  r_explanation :: string

record ai_analysis =
  summary :: string
  evidence_list :: "ai_evidence list option"
  recommendations :: "ai_recommendation list option"

text \<open>
  The response object of \<^verbatim>\<open>formatCompanionResponse\<close>. The message is kept as its parts: one
  of the three greetings, the summary, and the sentence that introduces earlier cases.
  A related case reads \<^verbatim>\<open>c.date\<close> and \<^verbatim>\<open>c.briefDescription\<close>, which the objects returned by
  \<^verbatim>\<open>findSimilarCases\<close> do not have, so both are \<^verbatim>\<open>undefined\<close>.
\<close>

datatype message_part =
  SeenBefore | LooksInteresting | TrickyOne | Summary string | RemindsOfPastCases

record response_evidence =
  source :: string
  finding :: string
  link :: string

record response_suggestion =
  priority :: string
  action :: string
  reasoning :: string

record related_case =
  date :: "string option"
  similarity :: real
  brief :: "string option"

record companion_response =
  message :: "message_part list"
  evidence :: "response_evidence list"
  suggestions :: "response_suggestion list"
  relatedCases :: "related_case list"

text \<open>
  \<^verbatim>\<open>formatCompanionResponse\<close> (lines 90 to 135). Calling \<^verbatim>\<open>map\<close> on a missing array throws
  a \<open>TypeError\<close>; the response under construction is local and is lost with it.
\<close>

definition formatCompanionResponse ::
  "ai_analysis \<Rightarrow> 'r similar_case list \<Rightarrow> real \<Rightarrow> error + companion_response" where
  "formatCompanionResponse analysis similarCases confidence =
     (let greeting =
            (if confidence > 8 / 10 then SeenBefore
             else if confidence > 5 / 10 then LooksInteresting
             else TrickyOne);
          message1 = [greeting, Summary (summary analysis)]
      in case evidence_list analysis of
           None \<Rightarrow> Inl TypeError
         | Some es \<Rightarrow>
             let evidence1 =
                   map (\<lambda>e. \<lparr>source = e_source e, finding = e_description e,
                              link = e_reference e\<rparr>) es;
                 message2 =
                   (if length similarCases > 0 then message1 @ [RemindsOfPastCases]
                    else message1);
                 related =
                   (if length similarCases > 0
                    then map (\<lambda>c. \<lparr>date = None, similarity = similarityScore c,
                                     brief = None\<rparr>) similarCases
                    else [])
             in case recommendations analysis of
                  None \<Rightarrow> Inl TypeError
                | Some rs \<Rightarrow>
                    Inr \<lparr>message = message2, evidence = evidence1,
                         suggestions =
                           map (\<lambda>r. \<lparr>priority = r_priority r, action = r_description r,
                                      reasoning = r_explanation r\<rparr>) rs,
                         relatedCases = related\<rparr>)"

subsection \<open>Analyzing an incident\<close>

text \<open>
  \<^verbatim>\<open>showThinkingState\<close> (lines 140 to 156): \<^verbatim>\<open>querySelector\<close> returns \<^verbatim>\<open>null\<close> when no element
  matches, and reading \<^verbatim>\<open>classList\<close> of \<^verbatim>\<open>null\<close> throws; the class is added before the
  bubble is appended to the body, which throws when there is no body.
\<close>

definition classList_add :: "string \<Rightarrow> string list \<Rightarrow> string list" where
  "classList_add c classes = (if c \<in> set classes then classes else classes @ [c])"

definition showThinkingState :: "string \<Rightarrow> document \<Rightarrow> (error + unit) \<times> document" where
  "showThinkingState msg doc =
     (case toad_icon doc of
        None \<Rightarrow> (Inl TypeError, doc)
      | Some classes \<Rightarrow>
          let doc1 = doc\<lparr>toad_icon := Some (classList_add ''thinking'' classes)\<rparr> in
          case body doc1 of
            None \<Rightarrow> (Inl TypeError, doc1)
          | Some children \<Rightarrow> (Inr (), doc1\<lparr>body := Some (children @ [msg])\<rparr>))"

text \<open>
  Reading \<^verbatim>\<open>incident.indicators\<close> and \<^verbatim>\<open>incident.description\<close>: a \<open>TypeError\<close> on
  \<^verbatim>\<open>undefined\<close> and \<^verbatim>\<open>null\<close>, \<^verbatim>\<open>undefined\<close> on a primitive.
\<close>

definition get_indicators :: "arg \<Rightarrow> error + string list option" where
  "get_indicators inc =
     (case inc of
        Undefined \<Rightarrow> Inl TypeError
      | Null \<Rightarrow> Inl TypeError
      | Primitive s \<Rightarrow> Inr None
      | Structured i \<Rightarrow> Inr (indicators i))"

definition get_description :: "arg \<Rightarrow> error + string option" where
  "get_description inc =
     (case inc of
        Undefined \<Rightarrow> Inl TypeError
      | Null \<Rightarrow> Inl TypeError
      | Primitive s \<Rightarrow> Inr None
      | Structured i \<Rightarrow> Inr (Some (description i)))"

text \<open>
  \<^verbatim>\<open>await Promise.all([...])\<close> of three requests: the three results, or the exception of
  a rejected one. Which rejection wins when several fail depends on timing; the model
  takes the first in the order of the array.
\<close>

definition promise_all3 ::
  "error + 'a \<Rightarrow> error + 'b \<Rightarrow> error + 'c \<Rightarrow> error + ('a \<times> 'b \<times> 'c)" where
  "promise_all3 p1 p2 p3 =
     (case p1 of
        Inl e \<Rightarrow> Inl e
      | Inr a \<Rightarrow>
          (case p2 of
             Inl e \<Rightarrow> Inl e
           | Inr b \<Rightarrow> (case p3 of Inl e \<Rightarrow> Inl e | Inr c \<Rightarrow> Inr (a, b, c))))"

text \<open>
  The collaborators of \<^verbatim>\<open>analyzeIncidentWithContext\<close> that the source does not contain:
  the four service clients imported in lines 3 to 6, and the methods of the class that
  are called and never defined. Each may throw.
\<close>

record ('vt, 'mi, 'ti, 'p) helpers =
  analyzeIndicators :: "string list option \<Rightarrow> error + 'vt"
  mapTechniques :: "string option \<Rightarrow> error + 'mi"
  gatherIntel :: "string list option \<Rightarrow> error + 'ti"
  generateAnalysis ::
    "arg \<Rightarrow> 'vt \<Rightarrow> 'mi \<Rightarrow> 'ti \<Rightarrow> companion_response similar_case list \<Rightarrow> error + ai_analysis"
  extractPatterns :: "arg \<Rightarrow> error + fingerprint"
  calculateSimilarity :: "fingerprint \<Rightarrow> fingerprint \<Rightarrow> real"
  calculateConfidence :: "ai_analysis \<Rightarrow> error + real"
  updatePatternLearning ::
    "arg \<Rightarrow> companion_response \<Rightarrow> (companion_response, 'p) companion
       \<Rightarrow> (error + unit) \<times> (companion_response, 'p) companion"
  pruneOldData ::
    "(companion_response, 'p) companion
       \<Rightarrow> (error + unit) \<times> (companion_response, 'p) companion"
  showError ::
    "string \<Rightarrow> (companion_response, 'p) companion
       \<Rightarrow> error + (companion_response, 'p) companion"

text \<open>The body of the \<^verbatim>\<open>try\<close> block (lines 50 to 79).\<close>

definition analysisSteps ::
  "('vt, 'mi, 'ti, 'p) helpers \<Rightarrow> nat \<Rightarrow> nat \<Rightarrow> arg \<Rightarrow> (companion_response, 'p) companion
     \<Rightarrow> (error + companion_response) \<times> (companion_response, 'p) companion" where
  "analysisSteps h now date' inc this =
     (case get_indicators inc of
        Inl e \<Rightarrow> (Inl e, this)
      | Inr inds \<Rightarrow>
     case get_description inc of
        Inl e \<Rightarrow> (Inl e, this)
      | Inr desc \<Rightarrow>
     case promise_all3 (analyzeIndicators h inds) (mapTechniques h desc) (gatherIntel h inds) of
        Inl e \<Rightarrow> (Inl e, this)
      | Inr (vtResults, mitreMapping, threatIntel) \<Rightarrow>
     case findSimilarCases (extractPatterns h) (calculateSimilarity h) inc this of
        (Inl e, this1) \<Rightarrow> (Inl e, this1)
      | (Inr similarCases, this1) \<Rightarrow>
     case generateAnalysis h inc vtResults mitreMapping threatIntel similarCases of
        Inl e \<Rightarrow> (Inl e, this1)
      | Inr aiAnalysis \<Rightarrow>
     case calculateConfidence h aiAnalysis of
        Inl e \<Rightarrow> (Inl e, this1)
      | Inr confidence \<Rightarrow>
     case formatCompanionResponse aiAnalysis similarCases confidence of
        Inl e \<Rightarrow> (Inl e, this1)
      | Inr resp \<Rightarrow>
     case updateLearningDatabase (extractPatterns h) (updatePatternLearning h) (pruneOldData h)
            now date' inc resp this1 of
        (Inl e, this2) \<Rightarrow> (Inl e, this2)
      | (Inr u, this2) \<Rightarrow> (Inr resp, this2))"

text \<open>
  \<^verbatim>\<open>analyzeIncidentWithContext\<close> (lines 45 to 85). \<^verbatim>\<open>showThinkingState\<close> runs before the
  \<^verbatim>\<open>try\<close>; the \<^verbatim>\<open>catch\<close> logs the error, calls \<^verbatim>\<open>showError\<close> and falls off the end of the
  method, whose value is then \<^verbatim>\<open>undefined\<close>, written \<open>None\<close>. \<open>Inl\<close> is an exception that
  reaches the caller (the promise of the \<^verbatim>\<open>async\<close> method is rejected).
\<close>

definition analyzeIncidentWithContext ::
  "('vt, 'mi, 'ti, 'p) helpers \<Rightarrow> nat \<Rightarrow> nat \<Rightarrow> arg \<Rightarrow> (companion_response, 'p) companion
     \<Rightarrow> (error + companion_response option) \<times> (companion_response, 'p) companion" where
  "analyzeIncidentWithContext h now date' inc this =
     (case showThinkingState ''Hmm, let me take a look at this incident...'' (page this) of
        (Inl e, doc) \<Rightarrow> (Inl e, this\<lparr>page := doc\<rparr>)
      | (Inr u, doc) \<Rightarrow>
     case analysisSteps h now date' inc (this\<lparr>page := doc\<rparr>) of
        (Inr resp, this1) \<Rightarrow> (Inr (Some resp), this1)
      | (Inl err, this1) \<Rightarrow>
     case showError h
            ''Oops! I ran into a problem while analyzing this incident. Let me try a different approach...''
            (this1\<lparr>console := console this1 @ [err]\<rparr>) of
        Inl e \<Rightarrow> (Inl e, this1\<lparr>console := console this1 @ [err]\<rparr>)
      | Inr this2 \<Rightarrow> (Inr None, this2))"

subsection \<open>Examples used to instantiate the theorems\<close>

definition example_extract :: "arg \<Rightarrow> error + fingerprint" where
  "example_extract = pattern_extract (\<lambda>i. ''ip'') (\<lambda>d. [''phishing'']) (\<lambda>s. ''low'')"

definition example_incident :: arg where
  "example_incident =
     Structured \<lparr>description = ''phishing campaign detected'',
                 indicators = Some [''1.2.3.4''], severity = None\<rparr>"

definition second_incident :: arg where
  "second_incident =
     Structured \<lparr>description = ''phishing email with malicious link'',
                 indicators = None, severity = Some ''high''\<rparr>"

definition example_page :: document where
  "example_page = \<lparr>toad_icon = Some [], body = Some []\<rparr>"

definition empty_store :: "(string, unit) companion" where
  "empty_store =
     \<lparr>previousCases = [], learningPatterns = (), page = example_page, console = []\<rparr>"

definition tie_store :: "(string, unit) companion" where
  "tie_store =
     \<lparr>previousCases =
        [(''case_1'', \<lparr>incident = example_incident, response = ''first'', timestamp = 1,
                        patterns = [''ip'', ''phishing'', ''low'']\<rparr>),
         (''case_2'', \<lparr>incident = example_incident, response = ''second'', timestamp = 2,
                        patterns = [''ip'', ''phishing'', ''low'']\<rparr>)],
      learningPatterns = (), page = example_page, console = []\<rparr>"

definition near_store :: "(string, unit) companion" where
  "near_store =
     \<lparr>previousCases =
        [(''case_1'', \<lparr>incident = example_incident, response = ''first'', timestamp = 1,
                        patterns = [''ip'', ''phishing'', ''low'', ''hash'']\<rparr>)],
      learningPatterns = (), page = example_page, console = []\<rparr>"

definition example_helpers :: "(unit, unit, unit, unit) helpers" where
  "example_helpers =
     \<lparr>analyzeIndicators = (\<lambda>inds. Inr ()),
      mapTechniques = (\<lambda>desc. Inr ()),
      gatherIntel = (\<lambda>inds. Inr ()),
      generateAnalysis = (\<lambda>inc vt mi ti similarCases.
         Inr \<lparr>summary = ''credential phishing'', evidence_list = Some [],
              recommendations = Some []\<rparr>),
      extractPatterns = example_extract,
      calculateSimilarity = score,
      calculateConfidence = (\<lambda>a. Inr (9 / 10)),
      updatePatternLearning = (\<lambda>inc resp s. (Inr (), s)),
      pruneOldData = (\<lambda>s. (Inr (), s)),
      showError = (\<lambda>msg s.
         Inr (s\<lparr>page := (page s)\<lparr>body :=
                Some ((case body (page s) of None \<Rightarrow> [] | Some children \<Rightarrow> children)
                      @ [msg])\<rparr>\<rparr>))\<rparr>"

definition new_companion :: "(companion_response, unit) companion" where
  "new_companion =
     \<lparr>previousCases = [], learningPatterns = (), page = example_page, console = []\<rparr>"

definition bare_page_companion :: "(companion_response, unit) companion" where
  "bare_page_companion =
     \<lparr>previousCases = [], learningPatterns = (),
      page = \<lparr>toad_icon = None, body = Some []\<rparr>, console = []\<rparr>"

subsection \<open>Properties of the similarity scorer\<close>

lemma card_inter_le_union: "card (set a \<inter> set b) \<le> card (set a \<union> set b)"
  by (rule card_mono) auto

lemma score_nonneg: "0 \<le> score a b"
  by (simp add: score_def)

lemma score_le_one: "score a b \<le> 1"
proof (cases "set a = {} \<and> set b = {}")
  case True
  then show ?thesis by (simp add: score_def)
next
  case False
  then have "set a \<union> set b \<noteq> {}" by simp
  then have pos: "0 < card (set a \<union> set b)"
    by (simp add: card_gt_0_iff)
  have "real (card (set a \<inter> set b)) \<le> real (card (set a \<union> set b))"
    using card_inter_le_union [of a b] by simp
  with pos have "real (card (set a \<inter> set b)) / real (card (set a \<union> set b)) \<le> 1"
    by (simp add: divide_le_eq_1)
  with False show ?thesis by (simp add: score_def)
qed

text \<open>
  Claim C3. For every pair of fingerprints, the score is the size of the intersection of
  the two token sets divided by the size of their union (whenever the union is not empty,
  so that the quotient is defined), it lies between 0 and 1, and it is 0 when both token
  sets are empty.
\<close>

theorem score_jaccard_bounds:
  "(set a \<union> set b \<noteq> {} \<longrightarrow>
      score a b = real (card (set a \<inter> set b)) / real (card (set a \<union> set b)))
   \<and> 0 \<le> score a b \<and> score a b \<le> 1
   \<and> (set a = {} \<and> set b = {} \<longrightarrow> score a b = 0)"
proof -
  have "set a \<union> set b \<noteq> {} \<longrightarrow>
      score a b = real (card (set a \<inter> set b)) / real (card (set a \<union> set b))"
    by (simp add: score_def)
  moreover have "set a = {} \<and> set b = {} \<longrightarrow> score a b = 0"
    by (simp add: score_def)
  ultimately show ?thesis
    using score_nonneg [of a b] score_le_one [of a b] by blast
qed

theorem score_jaccard_bounds_witness:
  "set [''ip'', ''phishing''] \<union> set [''ip'', ''malware'', ''phishing'', ''high''] \<noteq> {}
   \<and> score [''ip'', ''phishing''] [''ip'', ''malware'', ''phishing'', ''high''] = 1 / 2
   \<and> set ([] :: fingerprint) = {} \<and> score [] [] = 0"
proof -
  have c1: "card (set [''ip'', ''phishing''] \<inter> set [''ip'', ''malware'', ''phishing'', ''high'']) = 2"
    by code_simp
  have c2: "card (set [''ip'', ''phishing''] \<union> set [''ip'', ''malware'', ''phishing'', ''high'']) = 4"
    by code_simp
  show ?thesis
    using score_jaccard_bounds [of "[''ip'', ''phishing'']" "[''ip'', ''malware'', ''phishing'', ''high'']"]
      score_jaccard_bounds [of "[]" "[]"]
    unfolding c1 c2 by simp
qed

text \<open>
  Claim C4. The scorer is symmetric, and a fingerprint with at least one token scores 1
  against itself.
\<close>

theorem score_symmetric_reflexive:
  "score a b = score b a \<and> (a \<noteq> [] \<longrightarrow> score a a = 1)"
proof -
  have "score a b = score b a"
    by (simp add: score_def Int_commute Un_commute conj_commute)
  moreover have "a \<noteq> [] \<longrightarrow> score a a = 1"
  proof
    assume "a \<noteq> []"
    then have "set a \<noteq> {}" by simp
    then have "0 < card (set a)" by (simp add: card_gt_0_iff)
    with \<open>set a \<noteq> {}\<close> show "score a a = 1" by (simp add: score_def)
  qed
  ultimately show ?thesis by simp
qed

theorem score_symmetric_reflexive_witness:
  "score [''ip''] [''ip'', ''phishing''] = score [''ip'', ''phishing''] [''ip'']
   \<and> [''ip'', ''phishing''] \<noteq> ([] :: fingerprint)
   \<and> score [''ip'', ''phishing''] [''ip'', ''phishing''] = 1"
  using score_symmetric_reflexive [of "[''ip'']" "[''ip'', ''phishing'']"]
    score_symmetric_reflexive [of "[''ip'', ''phishing'']" "[''ip'', ''phishing'']"]
  by simp

subsection \<open>Evaluating the examples\<close>

lemma example_extract_incident:
  "example_extract example_incident = Inr [''ip'', ''phishing'', ''low'']"
  by (simp add: example_extract_def example_incident_def pattern_extract_def distinct_first_def)

lemma example_extract_second:
  "example_extract second_incident = Inr [''phishing'', ''low'']"
  by (simp add: example_extract_def second_incident_def pattern_extract_def distinct_first_def)

lemma score_same: "score [''ip'', ''phishing'', ''low''] [''ip'', ''phishing'', ''low''] = 1"
proof -
  have "card (set [''ip'', ''phishing'', ''low''] \<inter> set [''ip'', ''phishing'', ''low'']) = 3"
    by code_simp
  moreover
  have "card (set [''ip'', ''phishing'', ''low''] \<union> set [''ip'', ''phishing'', ''low'']) = 3"
    by code_simp
  ultimately show ?thesis unfolding score_def by simp
qed

lemma score_near:
  "score [''ip'', ''phishing'', ''low''] [''ip'', ''phishing'', ''low'', ''hash''] = 3 / 4"
proof -
  have "card (set [''ip'', ''phishing'', ''low'']
                \<inter> set [''ip'', ''phishing'', ''low'', ''hash'']) = 3"
    by code_simp
  moreover
  have "card (set [''ip'', ''phishing'', ''low'']
                \<union> set [''ip'', ''phishing'', ''low'', ''hash'']) = 4"
    by code_simp
  ultimately show ?thesis unfolding score_def by simp
qed

lemma case_id_1000: "case_id 1000 = ''case_1000''"
  by code_simp

subsection \<open>The loop and the sort of findSimilarCases\<close>

lemma collectSimilar_eq:
  "collectSimilar sim p cs acc =
     acc @ map (\<lambda>(caseId, h). withScore h (sim p (patterns h)))
             (filter (\<lambda>(caseId, h). sim p (patterns h) > 7 / 10) cs)"
  by (induction cs arbitrary: acc) (auto simp: Let_def)

lemma set_insert_by: "set (insert_by cmp x ys) = insert x (set ys)"
  by (induction ys) auto

lemma set_js_sort: "set (js_sort cmp xs) = set xs"
  by (induction xs) (auto simp: set_insert_by)

lemma sorted_insert_by:
  "sorted_wrt (\<lambda>a b. key b \<le> key a) ys \<Longrightarrow>
   sorted_wrt (\<lambda>a b. key b \<le> key a) (insert_by (\<lambda>a b. key b - key a) x ys)"
  by (induction ys) (auto simp: set_insert_by)

lemma sorted_js_sort:
  "sorted_wrt (\<lambda>a b. key b \<le> (key a :: real)) (js_sort (\<lambda>a b. key b - key a) xs)"
  by (induction xs) (auto simp: sorted_insert_by)

lemma filter_insert_by:
  "filter (\<lambda>m. key m = v) (insert_by (\<lambda>a b. key b - key a) x ys) =
     (if key x = v then x # filter (\<lambda>m. key m = v) ys else filter (\<lambda>m. key m = v) ys)"
  by (induction ys) auto

lemma filter_js_sort:
  "filter (\<lambda>m. key m = v) (js_sort (\<lambda>a b. key b - key a) xs) =
     filter (\<lambda>m. key m = (v::real)) xs"
  by (induction xs) (auto simp: filter_insert_by)

text \<open>
  Claim C1 as stated fails on the tie-break. The comparator looks at
  \<^verbatim>\<open>similarityScore\<close> only and the sort is stable, so two results with equal scores stay
  in the order of the store: the older case is first. Here two stored cases score 1; the
  one with timestamp 1 comes before the one with timestamp 2.
\<close>

theorem findSimilarCases_tie_counterexample:
  "fst (findSimilarCases example_extract score example_incident tie_store) =
     Inr [\<lparr>incident = example_incident, response = ''first'', timestamp = 1,
            patterns = [''ip'', ''phishing'', ''low''], similarityScore = 1\<rparr>,
          \<lparr>incident = example_incident, response = ''second'', timestamp = 2,
            patterns = [''ip'', ''phishing'', ''low''], similarityScore = 1\<rparr>]
   \<and> similarityScore \<lparr>incident = example_incident, response = ''first'', timestamp = 1,
            patterns = [''ip'', ''phishing'', ''low''], similarityScore = 1\<rparr>
     = similarityScore \<lparr>incident = example_incident, response = ''second'', timestamp = 2,
            patterns = [''ip'', ''phishing'', ''low''], similarityScore = 1\<rparr>
   \<and> timestamp \<lparr>incident = example_incident, response = ''first'', timestamp = 1,
            patterns = [''ip'', ''phishing'', ''low''], similarityScore = (1::real)\<rparr>
     < timestamp \<lparr>incident = example_incident, response = ''second'', timestamp = 2,
            patterns = [''ip'', ''phishing'', ''low''], similarityScore = (1::real)\<rparr>"
  by (simp add: findSimilarCases_def example_extract_incident tie_store_def score_same
      withScore_def)

text \<open>
  Claim C1, amended. Whenever the extractor accepts the incident, findSimilarCases
  returns a sequence sorted in descending order of similarityScore, and results with
  equal scores keep the insertion order of the store: for every score, the results with
  that score are the stored cases above 0.7 with that score, in store order.
\<close>

theorem findSimilarCases_sorted_stable:
  assumes "ext inc = Inr pats"
  shows "\<exists>res. fst (findSimilarCases ext sim inc this) = Inr res
     \<and> sorted_wrt (\<lambda>a b. similarityScore b \<le> similarityScore a) res
     \<and> (\<forall>v. filter (\<lambda>m. similarityScore m = v) res =
            filter (\<lambda>m. similarityScore m = v)
              (map (\<lambda>(caseId, h). withScore h (sim pats (patterns h)))
                 (filter (\<lambda>(caseId, h). sim pats (patterns h) > 7 / 10)
                    (previousCases this))))"
  using assms
  by (simp add: findSimilarCases_def sorted_js_sort filter_js_sort collectSimilar_eq)

theorem findSimilarCases_sorted_stable_witness:
  "example_extract example_incident = Inr [''ip'', ''phishing'', ''low'']
   \<and> (\<exists>res. fst (findSimilarCases example_extract score example_incident tie_store) = Inr res
     \<and> sorted_wrt (\<lambda>a b. similarityScore b \<le> similarityScore a) res
     \<and> (\<forall>v. filter (\<lambda>m. similarityScore m = v) res =
            filter (\<lambda>m. similarityScore m = v)
              (map (\<lambda>(caseId, h).
                      withScore h (score [''ip'', ''phishing'', ''low''] (patterns h)))
                 (filter (\<lambda>(caseId, h).
                      score [''ip'', ''phishing'', ''low''] (patterns h) > 7 / 10)
                    (previousCases tie_store)))))"
  using findSimilarCases_sorted_stable
      [of example_extract example_incident "[''ip'', ''phishing'', ''low'']" score tie_store]
    example_extract_incident
  by blast

text \<open>
  Claim C2 as stated fails for a threshold other than the default. The method has no
  threshold parameter and compares against the literal 0.7, so a caller who wants 0.9
  still gets a case that scores 0.75.
\<close>

theorem findSimilarCases_threshold_counterexample:
  "fst (findSimilarCases example_extract score example_incident near_store) =
     Inr [\<lparr>incident = example_incident, response = ''first'', timestamp = 1,
            patterns = [''ip'', ''phishing'', ''low'', ''hash''], similarityScore = 3 / 4\<rparr>]
   \<and> similarityScore \<lparr>incident = example_incident, response = ''first'', timestamp = 1,
            patterns = [''ip'', ''phishing'', ''low'', ''hash''], similarityScore = 3 / 4\<rparr>
       \<le> (9 / 10 :: real)"
  by (simp add: findSimilarCases_def example_extract_incident near_store_def score_near
      withScore_def)

text \<open>
  Claim C2, amended. For every incident and every state of the case store, every result
  returned by findSimilarCases has a similarityScore strictly greater than 0.7, the fixed
  threshold of the method; no result with a score of 0.7 or less is returned.
\<close>

theorem findSimilarCases_above_fixed_threshold:
  assumes "fst (findSimilarCases ext sim inc this) = Inr res"
  shows "\<forall>m \<in> set res. similarityScore m > 7 / 10"
  using assms
  by (auto simp: findSimilarCases_def set_js_sort collectSimilar_eq withScore_def
      split: sum.splits)

theorem findSimilarCases_above_fixed_threshold_witness:
  "fst (findSimilarCases example_extract score example_incident near_store) =
     Inr [\<lparr>incident = example_incident, response = ''first'', timestamp = 1,
            patterns = [''ip'', ''phishing'', ''low'', ''hash''], similarityScore = 3 / 4\<rparr>]
   \<and> similarityScore \<lparr>incident = example_incident, response = ''first'', timestamp = 1,
            patterns = [''ip'', ''phishing'', ''low'', ''hash''], similarityScore = 3 / 4\<rparr>
       > (7 / 10 :: real)"
proof -
  have res: "fst (findSimilarCases example_extract score example_incident near_store) =
     Inr [\<lparr>incident = example_incident, response = ''first'', timestamp = 1,
            patterns = [''ip'', ''phishing'', ''low'', ''hash''], similarityScore = 3 / 4\<rparr>]"
    by (simp add: findSimilarCases_def example_extract_incident near_store_def score_near
        withScore_def)
  from findSimilarCases_above_fixed_threshold [OF res] res show ?thesis
    by simp
qed

text \<open>
  Claim C8. With the extractor of the specification, findSimilarCases raises
  \<open>InvalidIncidentError\<close> exactly when the incident argument is missing or is not a
  structured record, it raises no other error, and for a structured incident and an empty
  store it returns the empty sequence.
\<close>

theorem findSimilarCases_errors:
  "(fst (findSimilarCases (pattern_extract classify keywordCategories severityBucket)
           sim inc this) = Inl InvalidIncidentError
      \<longleftrightarrow> (\<forall>i. inc \<noteq> Structured i))
   \<and> (\<forall>e. fst (findSimilarCases (pattern_extract classify keywordCategories severityBucket)
           sim inc this) = Inl e \<longrightarrow> e = InvalidIncidentError)
   \<and> ((\<exists>i. inc = Structured i) \<and> previousCases this = [] \<longrightarrow>
        fst (findSimilarCases (pattern_extract classify keywordCategories severityBucket)
           sim inc this) = Inr [])"
  by (cases inc) (simp_all add: findSimilarCases_def pattern_extract_def)

theorem findSimilarCases_errors_witness:
  "fst (findSimilarCases (pattern_extract (\<lambda>i. ''ip'') (\<lambda>d. [''phishing'']) (\<lambda>s. ''low''))
          score Undefined tie_store) = Inl InvalidIncidentError
   \<and> fst (findSimilarCases (pattern_extract (\<lambda>i. ''ip'') (\<lambda>d. [''phishing'']) (\<lambda>s. ''low''))
          score (Primitive ''phishing'') tie_store) = Inl InvalidIncidentError
   \<and> previousCases empty_store = []
   \<and> fst (findSimilarCases (pattern_extract (\<lambda>i. ''ip'') (\<lambda>d. [''phishing'']) (\<lambda>s. ''low''))
          score example_incident empty_store) = Inr []"
  using findSimilarCases_errors
      [of "\<lambda>i. ''ip''" "\<lambda>d. [''phishing'']" "\<lambda>s. ''low''" score Undefined tie_store]
    findSimilarCases_errors
      [of "\<lambda>i. ''ip''" "\<lambda>d. [''phishing'']" "\<lambda>s. ''low''" score "Primitive ''phishing''"
          tie_store]
    findSimilarCases_errors
      [of "\<lambda>i. ''ip''" "\<lambda>d. [''phishing'']" "\<lambda>s. ''low''" score example_incident
          empty_store]
  by (simp add: example_incident_def empty_store_def)

text \<open>
  Claim C9. A call of findSimilarCases leaves the companion as it was: the stored cases
  and the learned patterns after the call are those before it, whether the call returns
  or raises.
\<close>

theorem findSimilarCases_frame:
  "snd (findSimilarCases ext sim inc this) = this
   \<and> previousCases (snd (findSimilarCases ext sim inc this)) = previousCases this
   \<and> learningPatterns (snd (findSimilarCases ext sim inc this)) = learningPatterns this"
  by (simp add: findSimilarCases_def split: sum.splits)

theorem findSimilarCases_frame_witness:
  "snd (findSimilarCases example_extract score example_incident tie_store) = tie_store
   \<and> snd (findSimilarCases example_extract score Undefined tie_store) = tie_store"
  using findSimilarCases_frame [of example_extract score example_incident tie_store]
    findSimilarCases_frame [of example_extract score Undefined tie_store]
  by simp

subsection \<open>Inserting a case\<close>



text \<open>
  An exception of the pattern update or of the pruning comes after the case was stored:
  it reaches the caller, and the companion is the one that call left behind.
\<close>

lemma updateLearningDatabase_update_throws:
  assumes "ext inc = Inr pats"
    and "upl inc resp
           (this\<lparr>previousCases :=
              map_set (case_id now)
                \<lparr>incident = inc, response = resp, timestamp = d, patterns = pats\<rparr>
                (previousCases this)\<rparr>) = (Inl e, learned)"
  shows "updateLearningDatabase ext upl prn now d inc resp this = (Inl e, learned)"
  using assms by (simp add: updateLearningDatabase_def Let_def)

lemma updateLearningDatabase_prune_throws:
  assumes "ext inc = Inr pats"
    and "upl inc resp
           (this\<lparr>previousCases :=
              map_set (case_id now)
                \<lparr>incident = inc, response = resp, timestamp = d, patterns = pats\<rparr>
                (previousCases this)\<rparr>) = (Inr (), learned)"
    and "prn learned = (Inl e, pruned)"
  shows "updateLearningDatabase ext upl prn now d inc resp this = (Inl e, pruned)"
  using assms by (simp add: updateLearningDatabase_def Let_def)



text \<open>
  Claim C6 on the code. The key is \<^verbatim>\<open>case_\<close> followed by \<^verbatim>\<open>Date.now()\<close>, a clock in
  milliseconds. Two inserts within the same millisecond get the same key: the second key
  is not fresh, and \<^verbatim>\<open>Map.set\<close> replaces the first case by the second.
\<close>

theorem updateLearningDatabase_same_millisecond:
  "previousCases
     (snd (updateLearningDatabase example_extract (\<lambda>i r s. (Inr (), s))
             (\<lambda>s. (Inr (), s)) 1000 1000
             example_incident ''first outcome'' empty_store))
     = [(''case_1000'', \<lparr>incident = example_incident, response = ''first outcome'',
            timestamp = 1000, patterns = [''ip'', ''phishing'', ''low'']\<rparr>)]
   \<and> case_id 1000 = ''case_1000''
   \<and> previousCases
     (snd (updateLearningDatabase example_extract (\<lambda>i r s. (Inr (), s))
             (\<lambda>s. (Inr (), s)) 1000 1000
             second_incident ''second outcome''
        (snd (updateLearningDatabase example_extract (\<lambda>i r s. (Inr (), s))
             (\<lambda>s. (Inr (), s)) 1000 1000
             example_incident ''first outcome'' empty_store))))
     = [(''case_1000'', \<lparr>incident = second_incident, response = ''second outcome'',
            timestamp = 1000, patterns = [''phishing'', ''low'']\<rparr>)]"
  by (simp add: updateLearningDatabase_def Let_def example_extract_incident
      example_extract_second case_id_1000 empty_store_def)

subsection \<open>Pruning\<close>





subsection \<open>Exceptions of analyzeIncidentWithContext\<close>

lemma showThinkingState_ok:
  assumes "toad_icon doc = Some classes" and "body doc = Some children"
  shows "showThinkingState msg doc =
     (Inr (), doc\<lparr>toad_icon := Some (classList_add ''thinking'' classes),
                  body := Some (children @ [msg])\<rparr>)"
  using assms by (simp add: showThinkingState_def Let_def)

text \<open>
  Claim C10 as stated fails. \<^verbatim>\<open>showThinkingState\<close> is called before the \<^verbatim>\<open>try\<close> block;
  on a page with no element matching \<^verbatim>\<open>.toad-icon\<close> it throws a \<open>TypeError\<close>, which no
  \<^verbatim>\<open>catch\<close> handles and which reaches the caller.
\<close>

theorem analyzeIncidentWithContext_propagates_counterexample:
  "fst (analyzeIncidentWithContext example_helpers 1000 1000 example_incident
          bare_page_companion)
     = Inl TypeError"
  by (simp add: analyzeIncidentWithContext_def showThinkingState_def bare_page_companion_def)

text \<open>
  Claim C10, amended. On a page where showThinkingState succeeds (there is an element
  matching \<^verbatim>\<open>.toad-icon\<close> and a body), and provided showError itself does not throw when
  the \<^verbatim>\<open>catch\<close> calls it, analyzeIncidentWithContext propagates no exception for any
  incident: if a step inside the \<^verbatim>\<open>try\<close> block throws, the error is logged, showError is
  called and the method returns undefined; otherwise it returns the response.
\<close>

theorem analyzeIncidentWithContext_catches:
  assumes icon: "toad_icon (page this) = Some classes"
    and bdy: "body (page this) = Some children"
    and shown: "\<And>err this1.
          analysisSteps h now d inc
            (this\<lparr>page := snd (showThinkingState
                 ''Hmm, let me take a look at this incident...'' (page this))\<rparr>)
            = (Inl err, this1) \<Longrightarrow>
          \<exists>s'. showError h
               ''Oops! I ran into a problem while analyzing this incident. Let me try a different approach...''
               (this1\<lparr>console := console this1 @ [err]\<rparr>) = Inr s'"
  shows "(\<exists>r. fst (analyzeIncidentWithContext h now d inc this) = Inr r)
     \<and> (\<forall>err this1.
          analysisSteps h now d inc
            (this\<lparr>page := snd (showThinkingState
                 ''Hmm, let me take a look at this incident...'' (page this))\<rparr>)
            = (Inl err, this1) \<longrightarrow>
          fst (analyzeIncidentWithContext h now d inc this) = Inr None
          \<and> showError h
               ''Oops! I ran into a problem while analyzing this incident. Let me try a different approach...''
               (this1\<lparr>console := console this1 @ [err]\<rparr>)
             = Inr (snd (analyzeIncidentWithContext h now d inc this)))
     \<and> (\<forall>resp this1.
          analysisSteps h now d inc
            (this\<lparr>page := snd (showThinkingState
                 ''Hmm, let me take a look at this incident...'' (page this))\<rparr>)
            = (Inr resp, this1) \<longrightarrow>
          analyzeIncidentWithContext h now d inc this = (Inr (Some resp), this1))"
proof -
  let ?msg = "''Hmm, let me take a look at this incident...''"
  let ?apology = "''Oops! I ran into a problem while analyzing this incident. Let me try a different approach...''"
  let ?doc = "(page this)\<lparr>toad_icon := Some (classList_add ''thinking'' classes),
                  body := Some (children @ [?msg])\<rparr>"
  have st: "showThinkingState ?msg (page this) = (Inr (), ?doc)"
    by (rule showThinkingState_ok [OF icon bdy])
  obtain res this1 where steps: "analysisSteps h now d inc (this\<lparr>page := ?doc\<rparr>) = (res, this1)"
    by (cases "analysisSteps h now d inc (this\<lparr>page := ?doc\<rparr>)") blast
  show ?thesis
  proof (cases res)
    case (Inr resp)
    with st steps show ?thesis
      by (simp add: analyzeIncidentWithContext_def)
  next
    case (Inl err)
    from Inl st steps have "analysisSteps h now d inc
            (this\<lparr>page := snd (showThinkingState ?msg (page this))\<rparr>) = (Inl err, this1)"
      by simp
    from shown [OF this] obtain s' where
      se: "showError h ?apology (this1\<lparr>console := console this1 @ [err]\<rparr>) = Inr s'"
      by blast
    with Inl st steps show ?thesis
      by (simp add: analyzeIncidentWithContext_def)
  qed
qed

theorem analyzeIncidentWithContext_catches_witness:
  "toad_icon (page new_companion) = Some []
   \<and> body (page new_companion) = Some []
   \<and> fst (analyzeIncidentWithContext example_helpers 1000 1000 Undefined new_companion) = Inr None
   \<and> console (snd (analyzeIncidentWithContext example_helpers 1000 1000 Undefined new_companion))
       = [TypeError]"
proof -
  have icon: "toad_icon (page new_companion) = Some []"
    by (simp add: new_companion_def example_page_def)
  have bdy: "body (page new_companion) = Some []"
    by (simp add: new_companion_def example_page_def)
  have shown: "\<And>err this1.
          analysisSteps example_helpers 1000 1000 Undefined
            (new_companion
               \<lparr>page := snd (showThinkingState
                 ''Hmm, let me take a look at this incident...'' (page new_companion))\<rparr>)
            = (Inl err, this1) \<Longrightarrow>
          \<exists>s'. showError example_helpers
               ''Oops! I ran into a problem while analyzing this incident. Let me try a different approach...''
               (this1\<lparr>console := console this1 @ [err]\<rparr>) = Inr s'"
    by (simp add: example_helpers_def)
  have steps: "analysisSteps example_helpers 1000 1000 Undefined
            (new_companion
               \<lparr>page := snd (showThinkingState
                 ''Hmm, let me take a look at this incident...'' (page new_companion))\<rparr>)
         = (Inl TypeError, new_companion
               \<lparr>page := snd (showThinkingState
                 ''Hmm, let me take a look at this incident...'' (page new_companion))\<rparr>)"
    by (simp add: analysisSteps_def get_indicators_def)
  from analyzeIncidentWithContext_catches [OF icon bdy shown]
  have r: "fst (analyzeIncidentWithContext example_helpers 1000 1000 Undefined
              new_companion) = Inr None
        \<and> showError example_helpers
               ''Oops! I ran into a problem while analyzing this incident. Let me try a different approach...''
               ((new_companion
               \<lparr>page := snd (showThinkingState
                 ''Hmm, let me take a look at this incident...'' (page new_companion))\<rparr>)
                 \<lparr>console := console (new_companion
               \<lparr>page := snd (showThinkingState
                 ''Hmm, let me take a look at this incident...'' (page new_companion))\<rparr>) @ [TypeError]\<rparr>)
             = Inr (snd (analyzeIncidentWithContext example_helpers 1000 1000 Undefined
                  new_companion))"
    using steps by blast
  have "Inr (snd (analyzeIncidentWithContext example_helpers 1000 1000 Undefined new_companion))
      = showError example_helpers
               ''Oops! I ran into a problem while analyzing this incident. Let me try a different approach...''
               ((new_companion
               \<lparr>page := snd (showThinkingState
                 ''Hmm, let me take a look at this incident...'' (page new_companion))\<rparr>)
                 \<lparr>console := console (new_companion
               \<lparr>page := snd (showThinkingState
                 ''Hmm, let me take a look at this incident...'' (page new_companion))\<rparr>) @ [TypeError]\<rparr>)"
    by (rule r [THEN conjunct2, symmetric])
  also have "\<dots> = Inr (new_companion
       \<lparr>page := (snd (showThinkingState
                 ''Hmm, let me take a look at this incident...'' (page new_companion)))
              \<lparr>body := Some ((case body (snd (showThinkingState
                 ''Hmm, let me take a look at this incident...'' (page new_companion))) of
                    None \<Rightarrow> [] | Some children \<Rightarrow> children)
                 @ [''Oops! I ran into a problem while analyzing this incident. Let me try a different approach...''])\<rparr>,
        console := [TypeError]\<rparr>)"
    by (simp add: example_helpers_def new_companion_def)
  finally have "console (snd (analyzeIncidentWithContext example_helpers 1000 1000 Undefined
                  new_companion)) = [TypeError]"
    by simp
  with r icon bdy show ?thesis by simp
qed

end
